theory Spec2Isabelle
  imports Main "HOL-Library.Word" "HOL-Library.List_Lexorder" "HOL-Library.Sublist"
    "HOL-Library.Multiset"
begin

section \<open>JavaScript strings\<close>

text \<open>
  A JavaScript string is a sequence of UTF-16 code units. \<open>length\<close> counts code units,
  as \<^verbatim>\<open>String.prototype.length\<close> does, and the order on lists of
  \<^theory_text>\<open>List_Lexorder\<close> over the unsigned order of 16-bit words is the order the
  default comparator of \<^verbatim>\<open>Array.prototype.sort\<close> uses: a proper prefix comes first,
  otherwise the first differing code unit decides.
\<close>

type_synonym code_unit = "16 word"
type_synonym jsstring = "code_unit list"

text \<open>An ASCII literal of the source, one code unit per character.\<close>

definition js :: "string \<Rightarrow> jsstring" where
  "js s = map of_char s"

text \<open>\<^verbatim>\<open>s.startsWith(searchString)\<close>, from position 0.\<close>

definition startsWith :: "jsstring \<Rightarrow> jsstring \<Rightarrow> bool" where
  "startsWith s searchString = (take (length searchString) s = searchString)"

text \<open>
  The name of an array index as a property key: the decimal digits of the index,
  no leading zero.
\<close>

function index_key :: "nat \<Rightarrow> jsstring" where
  "index_key n =
     (if n < 10 then [of_nat (48 + n)]
      else index_key (n div 10) @ [of_nat (48 + n mod 10)])"
  by pat_completeness auto
termination
  by (relation "measure id") auto

declare index_key.simps [simp del]

section \<open>Values delivered by \<^verbatim>\<open>JSON.parse\<close>, and errors\<close>

text \<open>
  An object is the list of its own properties in the order \<^verbatim>\<open>Object.keys\<close> reports
  them; the keys of an object are pairwise different. The program never looks at which
  number a number is, so a number carries no payload.
\<close>

datatype json =
    JNull
  | JBool bool
  | JNumber
  | JString jsstring
  | JArray "json list"
  | JObject "(jsstring \<times> json) list"

datatype js_error =
    Error jsstring
  | SyntaxError jsstring
  | TypeError jsstring

fun message :: "js_error \<Rightarrow> jsstring" where
  "message (Error m) = m"
| "message (SyntaxError m) = m"
| "message (TypeError m) = m"

text \<open>
  What \<^verbatim>\<open>JSON.parse(fs.readFileSync(packageJsonPath, 'utf8'))\<close> meets:
  a file that cannot be read (\<^verbatim>\<open>readFileSync\<close> throws, with the given message),
  a text that is not JSON (\<^verbatim>\<open>JSON.parse\<close> throws a SyntaxError), or a value.
\<close>

datatype manifest =
    Unreadable jsstring
  | Unparsable jsstring
  | Parsed json

text \<open>
  The state outside the program: the manifest on disk, and the strings handed to the two
  console streams so far. A stream is kept as the text given to it, in code units; how
  it is encoded into bytes on the way out is not modelled.
\<close>

record world =
  package_json :: manifest
  stdout :: jsstring
  stderr :: jsstring

text \<open>Reading and parsing leave the world as it is.\<close>

definition JSON_parse_readFileSync :: "world \<Rightarrow> (js_error + json) \<times> world" where
  "JSON_parse_readFileSync w =
     (case package_json w of
        Unreadable m \<Rightarrow> (Inl (Error m), w)
      | Unparsable m \<Rightarrow> (Inl (SyntaxError m), w)
      | Parsed v \<Rightarrow> (Inr v, w))"

text \<open>
  \<^verbatim>\<open>packageJson.scripts\<close>; \<open>None\<close> is \<^verbatim>\<open>undefined\<close>. Reading a property of
  \<^verbatim>\<open>null\<close> throws; a boolean, a number, a string and an array have no property of
  that name, nor does an object without such a member.
\<close>

fun get_scripts :: "json \<Rightarrow> js_error + json option" where
  "get_scripts JNull =
     Inl (TypeError (js ''Cannot read properties of null (reading 'scripts')''))"
| "get_scripts (JObject members) = Inr (map_of members (js ''scripts''))"
| "get_scripts _ = Inr None"

text \<open>
  \<^verbatim>\<open>Object.keys\<close>: throws on \<^verbatim>\<open>undefined\<close> and \<^verbatim>\<open>null\<close>; a boolean and a number
  have no own enumerable property; a string and an array have their indices.
\<close>

fun Object_keys :: "json option \<Rightarrow> js_error + jsstring list" where
  "Object_keys None = Inl (TypeError (js ''Cannot convert undefined or null to object''))"
| "Object_keys (Some JNull) =
     Inl (TypeError (js ''Cannot convert undefined or null to object''))"
| "Object_keys (Some (JBool b)) = Inr []"
| "Object_keys (Some JNumber) = Inr []"
| "Object_keys (Some (JString s)) = Inr (map index_key [0..<length s])"
| "Object_keys (Some (JArray vs)) = Inr (map index_key [0..<length vs])"
| "Object_keys (Some (JObject members)) = Inr (map fst members)"

section \<open>The static tables\<close>

definition COMMAND_DESCRIPTIONS :: "(jsstring \<times> jsstring) list" where
  "COMMAND_DESCRIPTIONS =
    [(js ''fix:dict'', js ''Normalize cspell front matter in markdown files''),
     (js ''fix:expired'', js ''Delete expired content files''),
     (js ''fix:filenames'', js ''Rename files with underscores to kebab-case''),
     (js ''fix:format'', js ''Format code and trim trailing spaces''),
     (js ''fix:htmltest-config'', js ''Update htmltest configuration''),
     (js ''fix:i18n:status'', js ''Update internationalization status''),
     (js ''fix:i18n:new'', js ''Handle new internationalization files''),
     (js ''fix:i18n'', js ''Run all i18n fixes (new + status)''),
     (js ''fix:markdown'', js ''Fix markdown linting issues and trailing spaces''),
     (js ''fix:refcache:refresh'', js ''Refresh reference cache (prune entries)''),
     (js ''fix:refcache'', js ''Prune reference cache and check links''),
     (js ''fix:submodule'', js ''Pin submodules and update semconv mounts''),
     (js ''fix:text'', js ''Fix textlint issues''),
     (js ''fix:all'', js ''Run all fix commands (except i18n)''),
     (js ''fix'', js ''Run all fix commands'')]"

record usage_example =
  command :: jsstring
  description :: jsstring
  when' :: jsstring

definition USAGE_EXAMPLES :: "usage_example list" where
  "USAGE_EXAMPLES =
    [\<lparr>command = js ''/fix:format'',
      description = js ''Format all code files and fix spacing issues'',
      when' = js ''Use when CI shows formatting errors''\<rparr>,
     \<lparr>command = js ''/fix:markdown'',
      description = js ''Fix markdown linting issues'',
      when' = js ''Use when markdownlint checks fail''\<rparr>,
     \<lparr>command = js ''/fix:refcache'',
      description = js ''Update the reference cache for link checking'',
      when' = js ''Use when link checker shows stale cached results''\<rparr>,
     \<lparr>command = js ''/fix:submodule'',
      description = js ''Update git submodules to latest versions'',
      when' = js ''Use when submodule updates are needed''\<rparr>]"

record troubleshooting_tip =
  issue :: jsstring
  solution :: jsstring

definition TROUBLESHOOTING :: "troubleshooting_tip list" where
  "TROUBLESHOOTING =
    [\<lparr>issue = js ''Command had no effect'',
      solution = js ''The command may have run successfully but found nothing to fix. Check the workflow run logs for details.''\<rparr>,
     \<lparr>issue = js ''Command failed with errors'',
      solution = js ''Check the workflow run logs for specific error messages. You may need to fix issues manually.''\<rparr>,
     \<lparr>issue = js ''Patch too large'',
      solution = js ''The changes exceed 1MB limit. Break into smaller fixes or apply changes manually.''\<rparr>,
     \<lparr>issue = js ''Patch failed to apply'',
      solution = js ''Conflicts with recent commits. Pull latest changes and run the fix locally.''\<rparr>]"

section \<open>generateHelpText\<close>

text \<open>
  \<^verbatim>\<open>Object.keys(packageJson.scripts).filter((script) => script.startsWith('fix:')).sort()\<close>.
  The names sorted are strings, so the default comparator orders them by code units.
\<close>

definition fixCommands :: "jsstring list \<Rightarrow> jsstring list" where
  "fixCommands keys = sort (filter (\<lambda>script. startsWith script (js ''fix:'')) keys)"

text \<open>
  \<^verbatim>\<open>COMMAND_DESCRIPTIONS[cmd] || 'Run fix command'\<close>: the fallback stands in for a
  missing entry and for an empty one. The lookup is only made for names that start
  with \<^verbatim>\<open>fix:\<close>, none of which is a property inherited from \<^verbatim>\<open>Object.prototype\<close>.
\<close>

definition command_description :: "jsstring \<Rightarrow> jsstring" where
  "command_description cmd =
     (case map_of COMMAND_DESCRIPTIONS cmd of
        None \<Rightarrow> js ''Run fix command''
      | Some d \<Rightarrow> if d = [] then js ''Run fix command'' else d)"

text \<open>The line one pass of the loop over \<^verbatim>\<open>fixCommands\<close> appends.\<close>

definition command_line :: "jsstring \<Rightarrow> jsstring" where
  "command_line cmd =
     (let description = command_description cmd
      in js ''- `/'' @ cmd @ js ''` - '' @ description @ js ''\<newline>'')"

text \<open>
  The value of \<^verbatim>\<open>markdown\<close> at the \<^verbatim>\<open>return\<close>, one binding per assignment of the
  source and one \<open>foldl\<close> per \<^verbatim>\<open>forEach\<close>. The pictographs are written as their
  UTF-16 code units.
\<close>

definition markdown :: "jsstring list \<Rightarrow> jsstring" where
  "markdown cmds =
    (let markdown = js ''## '' @ [0xD83E, 0xDD16] @ js '' PR Actions Bot - Help\<newline>\<newline>'';
         markdown = markdown @ js ''This bot can automatically fix common issues in your PR by responding to slash commands.\<newline>\<newline>'';
         markdown = markdown @ js ''### '' @ [0xD83D, 0xDCCB] @ js '' Available Commands\<newline>\<newline>'';
         markdown = markdown @ js ''Comment on this PR with any of these commands:\<newline>\<newline>'';
         markdown = foldl (\<lambda>markdown cmd. markdown @ command_line cmd) markdown cmds;
         markdown = markdown @ js ''\<newline>### '' @ [0xD83D, 0xDCA1] @ js '' Usage Examples\<newline>\<newline>'';
         markdown = foldl (\<lambda>markdown example.
             let markdown = markdown @ js ''**`'' @ command example @ js ''`**\<newline>'';
                 markdown = markdown @ js ''- '' @ description example @ js ''\<newline>'';
                 markdown = markdown @ js ''- _'' @ when' example @ js ''_\<newline>\<newline>''
             in markdown) markdown USAGE_EXAMPLES;
         markdown = markdown @ js ''### '' @ [0x2699, 0xFE0F] @ js '' How It Works\<newline>\<newline>'';
         markdown = markdown @ js ''1. Comment with a `/fix:*` command on this PR\<newline>'';
         markdown = markdown @ js ''2. The bot runs the command in a secure environment\<newline>'';
         markdown = markdown @ js ''3. If changes are needed, they're automatically committed to your branch\<newline>'';
         markdown = markdown @ js ''4. You'll get a success/failure notification\<newline>\<newline>'';
         markdown = markdown @ js ''### '' @ [0xD83D, 0xDD27] @ js '' Troubleshooting\<newline>\<newline>'';
         markdown = foldl (\<lambda>markdown tip.
             let markdown = markdown @ js ''**'' @ issue tip @ js ''**\<newline>'';
                 markdown = markdown @ solution tip @ js ''\<newline>\<newline>''
             in markdown) markdown TROUBLESHOOTING;
         markdown = markdown @ js ''### '' @ [0xD83D, 0xDCDA] @ js '' Documentation\<newline>\<newline>'';
         markdown = markdown @ js ''- [Contributing Guide](https://opentelemetry.io/docs/contributing/)\<newline>'';
         markdown = markdown @ js ''- [Project README](../CONTRIBUTING.md)\<newline>'';
         markdown = markdown @ js ''- [PR Actions Workflow](.github/workflows/pr-actions.yml)\<newline>\<newline>'';
         markdown = markdown @ js ''---\<newline>'';
         markdown = markdown @ js ''_'' @ [0xD83D, 0xDCAC] @ js '' Need more help? Ask in the PR comments or reach out to maintainers._\<newline>''
     in markdown)"

text \<open>
  The function: every \<^verbatim>\<open>throw\<close> on the way is a left result, and the world comes
  back with the result.
\<close>

definition generateHelpText :: "world \<Rightarrow> (js_error + jsstring) \<times> world" where
  "generateHelpText w =
     (case JSON_parse_readFileSync w of
        (Inl e, w') \<Rightarrow> (Inl e, w')
      | (Inr packageJson, w') \<Rightarrow>
          (case get_scripts packageJson of
             Inl e \<Rightarrow> (Inl e, w')
           | Inr scripts \<Rightarrow>
               (case Object_keys scripts of
                  Inl e \<Rightarrow> (Inl e, w')
                | Inr keys \<Rightarrow> (Inr (markdown (fixCommands keys)), w'))))"

section \<open>The command-line entry\<close>

text \<open>
  \<^verbatim>\<open>console.log\<close> and \<^verbatim>\<open>console.error\<close> write their arguments, separated by one
  space and followed by a newline, to standard output and to standard error.
\<close>

fun join_args :: "jsstring list \<Rightarrow> jsstring" where
  "join_args [] = []"
| "join_args [a] = a"
| "join_args (a # b # rest) = a @ js '' '' @ join_args (b # rest)"

definition console_log :: "jsstring list \<Rightarrow> world \<Rightarrow> world" where
  "console_log args w = w\<lparr>stdout := stdout w @ join_args args @ js ''\<newline>''\<rparr>"

definition console_error :: "jsstring list \<Rightarrow> world \<Rightarrow> world" where
  "console_error args w = w\<lparr>stderr := stderr w @ join_args args @ js ''\<newline>''\<rparr>"

text \<open>
  The \<^verbatim>\<open>try\<close>/\<^verbatim>\<open>catch\<close> block under \<^verbatim>\<open>require.main === module\<close>, from the
  moment it is entered: the world after it and the status it ends with, 1 from
  \<^verbatim>\<open>process.exit(1)\<close> and 0 when it completes, nothing but the assignment to
  \<^verbatim>\<open>module.exports\<close> standing after it. What comes before the block is entered is
  not modelled: how the engine finds and loads the script, its own reading of the
  package the script lies in, and the two \<^verbatim>\<open>require\<close> calls at the head of the
  file. So \<open>main\<close> says what the block does once it runs, not what becomes of a
  process that never reaches it.
\<close>

definition main :: "world \<Rightarrow> world \<times> nat" where
  "main w =
     (case generateHelpText w of
        (Inr helpText, w') \<Rightarrow> (console_log [helpText] w', 0)
      | (Inl error, w') \<Rightarrow>
          (console_error [js ''Error generating help text:'', message error] w', 1))"

section \<open>The sorting routine of the engine\<close>



section \<open>The layout of the document\<close>

text \<open>
  The fixed text of the document by parts, for stating where in the output a thing
  stands: the title line, the heading line of each section, and the text between them.
\<close>

definition title_line :: jsstring where
  "title_line = js ''## '' @ [0xD83E, 0xDD16] @ js '' PR Actions Bot - Help\<newline>''"

definition intro_text :: jsstring where
  "intro_text = js ''\<newline>'' @ js ''This bot can automatically fix common issues in your PR by responding to slash commands.\<newline>\<newline>''"

definition commands_heading :: jsstring where
  "commands_heading = js ''### '' @ [0xD83D, 0xDCCB] @ js '' Available Commands\<newline>''"

definition commands_hint :: jsstring where
  "commands_hint = js ''\<newline>'' @ js ''Comment on this PR with any of these commands:\<newline>\<newline>''"

definition usage_heading :: jsstring where
  "usage_heading = js ''### '' @ [0xD83D, 0xDCA1] @ js '' Usage Examples\<newline>''"

definition how_heading :: jsstring where
  "how_heading = js ''### '' @ [0x2699, 0xFE0F] @ js '' How It Works\<newline>''"

definition how_steps :: jsstring where
  "how_steps = js ''\<newline>''
     @ js ''1. Comment with a `/fix:*` command on this PR\<newline>''
     @ js ''2. The bot runs the command in a secure environment\<newline>''
     @ js ''3. If changes are needed, they're automatically committed to your branch\<newline>''
     @ js ''4. You'll get a success/failure notification\<newline>\<newline>''"

definition troubleshooting_heading :: jsstring where
  "troubleshooting_heading = js ''### '' @ [0xD83D, 0xDD27] @ js '' Troubleshooting\<newline>''"

definition documentation_heading :: jsstring where
  "documentation_heading = js ''### '' @ [0xD83D, 0xDCDA] @ js '' Documentation\<newline>''"

definition documentation_links :: jsstring where
  "documentation_links = js ''\<newline>''
     @ js ''- [Contributing Guide](https://opentelemetry.io/docs/contributing/)\<newline>''
     @ js ''- [Project README](../CONTRIBUTING.md)\<newline>''
     @ js ''- [PR Actions Workflow](.github/workflows/pr-actions.yml)\<newline>\<newline>''
     @ js ''---\<newline>''"

definition footer_line :: jsstring where
  "footer_line = js ''_'' @ [0xD83D, 0xDCAC] @ js '' Need more help? Ask in the PR comments or reach out to maintainers._\<newline>''"

text \<open>The three lines of one usage example and the two lines of one troubleshooting tip.\<close>

definition example_lines :: "usage_example \<Rightarrow> jsstring" where
  "example_lines example =
     js ''**`'' @ command example @ js ''`**\<newline>''
     @ js ''- '' @ description example @ js ''\<newline>''
     @ js ''- _'' @ when' example @ js ''_\<newline>\<newline>''"

definition tip_lines :: "troubleshooting_tip \<Rightarrow> jsstring" where
  "tip_lines tip =
     js ''**'' @ issue tip @ js ''**\<newline>''
     @ solution tip @ js ''\<newline>\<newline>''"

text \<open>Everything before the list of commands, and everything after it.\<close>

definition before_commands :: jsstring where
  "before_commands = title_line @ intro_text @ commands_heading @ commands_hint"

definition after_commands :: jsstring where
  "after_commands =
     js ''\<newline>'' @ usage_heading @ js ''\<newline>''
     @ concat (map example_lines USAGE_EXAMPLES)
     @ how_heading @ how_steps
     @ troubleshooting_heading @ js ''\<newline>''
     @ concat (map tip_lines TROUBLESHOOTING)
     @ documentation_heading @ documentation_links @ footer_line"

section \<open>Manifests with and without a scripts mapping\<close>

text \<open>
  The parsed manifest has the structure the generator is written for: it is an object,
  and its \<^verbatim>\<open>scripts\<close> member is an object.
\<close>

fun has_scripts_mapping :: "json \<Rightarrow> bool" where
  "has_scripts_mapping (JObject members) =
     (case map_of members (js ''scripts'') of
        Some (JObject scripts) \<Rightarrow> True
      | _ \<Rightarrow> False)"
| "has_scripts_mapping _ = False"

text \<open>
  The parsed manifest offers nothing to take keys of: it is not an object, or it is an
  object with no \<^verbatim>\<open>scripts\<close> member, or with \<^verbatim>\<open>null\<close> for one.
\<close>

fun scripts_missing :: "json \<Rightarrow> bool" where
  "scripts_missing (JObject members) =
     (case map_of members (js ''scripts'') of
        None \<Rightarrow> True
      | Some JNull \<Rightarrow> True
      | Some _ \<Rightarrow> False)"
| "scripts_missing _ = True"

section \<open>Strings and the selection of commands\<close>

lemma js_append: "js (a @ b) = js a @ js b"
  by (simp add: js_def)

lemma js_eq_Nil [simp]: "js s = [] \<longleftrightarrow> s = []"
  by (simp add: js_def)

lemma length_js [simp]: "length (js s) = length s"
  by (simp add: js_def)

lemma set_fixCommands:
  "set (fixCommands keys) = {script \<in> set keys. startsWith script (js ''fix:'')}"
  by (simp add: fixCommands_def)

lemma sorted_fixCommands: "sorted (fixCommands keys)"
  by (simp add: fixCommands_def)

lemma distinct_fixCommands: "distinct keys \<Longrightarrow> distinct (fixCommands keys)"
  by (simp add: fixCommands_def)

text \<open>
  The selection depends on the set of keys only: neither on the order in which the
  object lists them nor on how the sort goes about its work.
\<close>

lemma fixCommands_unique:
  assumes "distinct keys" and "sorted cmds" and "distinct cmds"
    and "set cmds = {script \<in> set keys. startsWith script (js ''fix:'')}"
  shows "cmds = fixCommands keys"
  using assms sorted_distinct_set_unique [of cmds "fixCommands keys"]
  by (simp add: set_fixCommands sorted_fixCommands distinct_fixCommands)

lemma fixCommands_same_keys:
  assumes "distinct keys" and "distinct keys'" and "set keys = set keys'"
  shows "fixCommands keys = fixCommands keys'"
proof (rule fixCommands_unique [OF assms(2)])
  show "sorted (fixCommands keys)" by (rule sorted_fixCommands)
  show "distinct (fixCommands keys)" using assms(1) by (rule distinct_fixCommands)
  show "set (fixCommands keys) = {script \<in> set keys'. startsWith script (js ''fix:'')}"
    using assms(3) by (simp add: set_fixCommands)
qed

section \<open>The shape of the document\<close>

lemma foldl_append_concat:
  "foldl (\<lambda>acc x. acc @ f x) acc xs = acc @ concat (map f xs)"
  by (induction xs arbitrary: acc) simp_all

lemma split_title: "js '' PR Actions Bot - Help\<newline>\<newline>'' = js '' PR Actions Bot - Help\<newline>'' @ js ''\<newline>''"
  by (simp add: js_def)

lemma split_commands: "js '' Available Commands\<newline>\<newline>'' = js '' Available Commands\<newline>'' @ js ''\<newline>''"
  by (simp add: js_def)

lemma split_usage: "js '' Usage Examples\<newline>\<newline>'' = js '' Usage Examples\<newline>'' @ js ''\<newline>''"
  by (simp add: js_def)

lemma split_usage_lead: "js ''\<newline>### '' = js ''\<newline>'' @ js ''### ''"
  by (simp add: js_def)

lemma split_how: "js '' How It Works\<newline>\<newline>'' = js '' How It Works\<newline>'' @ js ''\<newline>''"
  by (simp add: js_def)

lemma split_troubleshooting: "js '' Troubleshooting\<newline>\<newline>'' = js '' Troubleshooting\<newline>'' @ js ''\<newline>''"
  by (simp add: js_def)

lemma split_documentation: "js '' Documentation\<newline>\<newline>'' = js '' Documentation\<newline>'' @ js ''\<newline>''"
  by (simp add: js_def)

lemmas heading_splits =
  split_title split_commands split_usage split_usage_lead split_how
  split_troubleshooting split_documentation

lemma markdown_layout:
  "markdown cmds = before_commands @ concat (map command_line cmds) @ after_commands"
proof -
  have layout: "before_commands @ concat (map command_line cmds) @ after_commands =
      js ''## '' @ [0xD83E, 0xDD16] @ js '' PR Actions Bot - Help\<newline>\<newline>''
      @ js ''This bot can automatically fix common issues in your PR by responding to slash commands.\<newline>\<newline>''
      @ js ''### '' @ [0xD83D, 0xDCCB] @ js '' Available Commands\<newline>\<newline>''
      @ js ''Comment on this PR with any of these commands:\<newline>\<newline>''
      @ concat (map command_line cmds)
      @ js ''\<newline>### '' @ [0xD83D, 0xDCA1] @ js '' Usage Examples\<newline>\<newline>''
      @ concat (map example_lines USAGE_EXAMPLES)
      @ js ''### '' @ [0x2699, 0xFE0F] @ js '' How It Works\<newline>\<newline>''
      @ js ''1. Comment with a `/fix:*` command on this PR\<newline>''
      @ js ''2. The bot runs the command in a secure environment\<newline>''
      @ js ''3. If changes are needed, they're automatically committed to your branch\<newline>''
      @ js ''4. You'll get a success/failure notification\<newline>\<newline>''
      @ js ''### '' @ [0xD83D, 0xDD27] @ js '' Troubleshooting\<newline>\<newline>''
      @ concat (map tip_lines TROUBLESHOOTING)
      @ js ''### '' @ [0xD83D, 0xDCDA] @ js '' Documentation\<newline>\<newline>''
      @ js ''- [Contributing Guide](https://opentelemetry.io/docs/contributing/)\<newline>''
      @ js ''- [Project README](../CONTRIBUTING.md)\<newline>''
      @ js ''- [PR Actions Workflow](.github/workflows/pr-actions.yml)\<newline>\<newline>''
      @ js ''---\<newline>''
      @ js ''_'' @ [0xD83D, 0xDCAC] @ js '' Need more help? Ask in the PR comments or reach out to maintainers._\<newline>''"
    unfolding before_commands_def after_commands_def title_line_def intro_text_def
      commands_heading_def commands_hint_def usage_heading_def how_heading_def
      how_steps_def troubleshooting_heading_def documentation_heading_def
      documentation_links_def footer_line_def heading_splits
    by (simp only: append_assoc)
  have loops: "foldl (\<lambda>acc x. acc @ f x) acc xs = acc @ concat (map f xs)" for f :: "'a \<Rightarrow> jsstring" and acc xs
    by (rule foldl_append_concat)
  show ?thesis
    unfolding layout markdown_def Let_def example_lines_def [abs_def] tip_lines_def [abs_def]
    by (simp only: append_assoc loops)
qed

section \<open>Index keys are no commands\<close>

lemma digit_below:
  assumes "n < 10"
  shows "(of_nat (48 + n) :: code_unit) < 58"
proof -
  from assms have "unat (of_nat (48 + n) :: code_unit) = 48 + n"
    by (simp only: unat_of_nat) simp
  moreover have "unat (58 :: code_unit) = 58" by simp
  ultimately show ?thesis using assms by (simp only: word_less_nat_alt)
qed

lemma hd_index_key: "index_key n \<noteq> [] \<and> hd (index_key n) < 58"
proof (induction n rule: index_key.induct)
  case (1 n)
  show ?case
  proof (cases "n < 10")
    case True
    then show ?thesis using digit_below [of n] by (simp add: index_key.simps [of n])
  next
    case False
    with 1 show ?thesis by (simp add: index_key.simps [of n])
  qed
qed

lemma index_key_not_fix: "\<not> startsWith (index_key n) (js ''fix:'')"
proof
  assume "startsWith (index_key n) (js ''fix:'')"
  then have "take (length (js ''fix:'')) (index_key n) = js ''fix:''"
    by (simp only: startsWith_def)
  then have "hd (take (length (js ''fix:'')) (index_key n)) = hd (js ''fix:'')"
    by simp
  moreover have "hd (js ''fix:'') = 102" by (simp add: js_def)
  moreover have "hd (take (length (js ''fix:'')) (index_key n)) = hd (index_key n)"
    by (rule hd_take) simp
  ultimately show False using hd_index_key [of n] by simp
qed

lemma fixCommands_index_keys: "fixCommands (map index_key ns) = []"
  by (simp add: fixCommands_def index_key_not_fix)

section \<open>The description table\<close>

lemma COMMAND_DESCRIPTIONS_distinct: "distinct (map fst COMMAND_DESCRIPTIONS)"
  by (simp add: COMMAND_DESCRIPTIONS_def js_def)

lemma COMMAND_DESCRIPTIONS_nonempty: "(k, d) \<in> set COMMAND_DESCRIPTIONS \<Longrightarrow> d \<noteq> []"
  by (auto simp add: COMMAND_DESCRIPTIONS_def js_def)

lemma command_line_present:
  assumes "(cmd, d) \<in> set COMMAND_DESCRIPTIONS"
  shows "command_line cmd = js ''- `/'' @ cmd @ js ''` - '' @ d @ js ''\<newline>''"
proof -
  from assms have "map_of COMMAND_DESCRIPTIONS cmd = Some d"
    by (simp add: COMMAND_DESCRIPTIONS_distinct)
  moreover from assms have "d \<noteq> []" by (rule COMMAND_DESCRIPTIONS_nonempty)
  ultimately show ?thesis by (simp add: command_line_def command_description_def)
qed

lemma command_line_absent:
  assumes "cmd \<notin> fst ` set COMMAND_DESCRIPTIONS"
  shows "command_line cmd = js ''- `/'' @ cmd @ js ''` - '' @ js ''Run fix command'' @ js ''\<newline>''"
proof -
  from assms have "map_of COMMAND_DESCRIPTIONS cmd = None"
    by (simp add: map_of_eq_None_iff)
  then show ?thesis by (simp add: command_line_def command_description_def)
qed

section \<open>What generateHelpText returns\<close>

lemma generateHelpText_world: "snd (generateHelpText w) = w"
  by (simp add: generateHelpText_def JSON_parse_readFileSync_def
      split: manifest.splits sum.splits)

lemma generateHelpText_scripts_mapping:
  assumes "package_json w = Parsed (JObject members)"
    and "map_of members (js ''scripts'') = Some (JObject scripts)"
  shows "generateHelpText w = (Inr (markdown (fixCommands (map fst scripts))), w)"
  using assms by (simp add: generateHelpText_def JSON_parse_readFileSync_def)

lemma generateHelpText_document:
  assumes "package_json w = Parsed (JObject members)"
    and "map_of members (js ''scripts'') = Some (JObject scripts)"
  shows "fst (generateHelpText w) =
    Inr (before_commands @ concat (map command_line (fixCommands (map fst scripts)))
      @ after_commands)"
  using generateHelpText_scripts_mapping [OF assms] by (simp add: markdown_layout)

lemma generateHelpText_markdown:
  assumes "fst (generateHelpText w) = Inr md"
  shows "\<exists>keys. md = markdown (fixCommands keys)"
  using assms
  by (auto simp add: generateHelpText_def JSON_parse_readFileSync_def
      split: manifest.splits sum.splits)

section \<open>The entry point\<close>

lemma error_prefix:
  "js ''Error generating help text:'' @ js '' '' @ m = js ''Error generating help text: '' @ m"
  by (simp add: js_def)

lemma main_failure:
  assumes "generateHelpText w = (Inl e, w)"
  shows "main w =
    (w\<lparr>stderr := stderr w @ js ''Error generating help text: '' @ message e @ js ''\<newline>''\<rparr>, 1)"
  using assms by (simp add: main_def console_error_def error_prefix)

lemma main_success:
  assumes "generateHelpText w = (Inr md, w)"
  shows "main w = (w\<lparr>stdout := stdout w @ md @ js ''\<newline>''\<rparr>, 0)"
  using assms by (simp add: main_def console_log_def)

lemma generateHelpText_scripts_missing:
  assumes "package_json w = Parsed packageJson" and "scripts_missing packageJson"
  shows "\<exists>m. generateHelpText w = (Inl (TypeError m), w)"
proof (cases packageJson)
  case (JObject members)
  with assms show ?thesis
    by (cases "map_of members (js ''scripts'')")
      (auto simp add: generateHelpText_def JSON_parse_readFileSync_def split: json.splits)
qed (use assms in \<open>simp_all add: generateHelpText_def JSON_parse_readFileSync_def\<close>)

lemma generateHelpText_pair: "generateHelpText w = (fst (generateHelpText w), w)"
  using generateHelpText_world [of w] by (simp add: prod_eq_iff)

section \<open>Any routine that keeps the contract\<close>






section \<open>The lists of examples and tips\<close>

lemma USAGE_EXAMPLES_distinct: "distinct (map command USAGE_EXAMPLES)"
  by (simp add: USAGE_EXAMPLES_def js_def)

lemma TROUBLESHOOTING_distinct: "distinct (map issue TROUBLESHOOTING)"
  by (simp add: TROUBLESHOOTING_def js_def)

section \<open>The bare fix command, the title and the footer\<close>

lemma bare_fix_no_prefix: "\<not> startsWith (js ''fix'') (js ''fix:'')"
  by (simp add: startsWith_def js_def)

lemma bare_fix_in_table:
  "map_of COMMAND_DESCRIPTIONS (js ''fix'') = Some (js ''Run all fix commands'')"
  by (simp add: COMMAND_DESCRIPTIONS_def js_def)

lemma title_first: "prefix title_line (before_commands @ rest)"
  by (simp add: before_commands_def)

lemma footer_last: "suffix footer_line after_commands"
  unfolding after_commands_def by (intro suffix_appendI suffix_order.refl)

section \<open>The claims\<close>

text \<open>
  C1. The commands listed are the keys of the scripts mapping that begin with
  \<^verbatim>\<open>fix:\<close>, in lexicographic order, each once: the document is the fixed text
  before the list, then for each of them in that order one line that holds a hyphen,
  the name of the command after a slash between backquotes, a hyphen and its
  description, then the fixed text after the list. For the keys fix:a, fix:b and
  other the commands listed are fix:a and fix:b.
\<close>

theorem fix_commands_listed:
  assumes "package_json w = Parsed (JObject members)"
    and "map_of members (js ''scripts'') = Some (JObject scripts)"
    and "distinct (map fst scripts)"
  shows "fst (generateHelpText w) =
        Inr (before_commands
          @ concat (map (\<lambda>cmd. js ''- `/'' @ cmd @ js ''` - '' @ command_description cmd
                @ js ''\<newline>'') (fixCommands (map fst scripts)))
          @ after_commands)
    \<and> set (fixCommands (map fst scripts)) =
        {script \<in> fst ` set scripts. startsWith script (js ''fix:'')}
    \<and> sorted (fixCommands (map fst scripts))
    \<and> distinct (fixCommands (map fst scripts))
    \<and> (fst ` set scripts = {js ''fix:a'', js ''fix:b'', js ''other''} \<longrightarrow>
        fixCommands (map fst scripts) = [js ''fix:a'', js ''fix:b''])"
proof (intro conjI impI)
  have "command_line =
      (\<lambda>cmd. js ''- `/'' @ cmd @ js ''` - '' @ command_description cmd @ js ''\<newline>'')"
    by (intro ext) (simp add: command_line_def)
  then show "fst (generateHelpText w) =
      Inr (before_commands
        @ concat (map (\<lambda>cmd. js ''- `/'' @ cmd @ js ''` - '' @ command_description cmd
              @ js ''\<newline>'') (fixCommands (map fst scripts)))
        @ after_commands)"
    using generateHelpText_document [OF assms(1,2)] by simp
  show "set (fixCommands (map fst scripts)) =
      {script \<in> fst ` set scripts. startsWith script (js ''fix:'')}"
    by (simp add: set_fixCommands)
  show "sorted (fixCommands (map fst scripts))"
    by (rule sorted_fixCommands)
  show "distinct (fixCommands (map fst scripts))"
    using assms(3) by (rule distinct_fixCommands)
next
  assume keys: "fst ` set scripts = {js ''fix:a'', js ''fix:b'', js ''other''}"
  have "[js ''fix:a'', js ''fix:b''] = fixCommands (map fst scripts)"
  proof (rule fixCommands_unique [OF assms(3)])
    show "sorted [js ''fix:a'', js ''fix:b'']" by (simp add: js_def)
    show "distinct [js ''fix:a'', js ''fix:b'']" by (simp add: js_def)
    have a: "startsWith (js ''fix:a'') (js ''fix:'')" by (simp add: startsWith_def js_def)
    have b: "startsWith (js ''fix:b'') (js ''fix:'')" by (simp add: startsWith_def js_def)
    have c: "\<not> startsWith (js ''other'') (js ''fix:'')"
      by (simp add: startsWith_def js_def)
    have "set (map fst scripts) = {js ''fix:a'', js ''fix:b'', js ''other''}"
      using keys by simp
    then show "set [js ''fix:a'', js ''fix:b''] =
        {script \<in> set (map fst scripts). startsWith script (js ''fix:'')}"
      using a b c by auto
  qed
  then show "fixCommands (map fst scripts) = [js ''fix:a'', js ''fix:b'']" by simp
qed

theorem fix_commands_listed_witness:
  "fst (generateHelpText
     \<lparr>package_json = Parsed (JObject
        [(js ''name'', JString (js ''site'')),
         (js ''scripts'', JObject
            [(js ''other'', JString (js ''hugo'')),
             (js ''fix:b'', JString (js ''prettier'')),
             (js ''fix:a'', JNumber)])]),
      stdout = [], stderr = []\<rparr>) =
   Inr (before_commands
     @ js ''- `/fix:a` - Run fix command\<newline>''
     @ js ''- `/fix:b` - Run fix command\<newline>''
     @ after_commands)"
proof -
  let ?scripts = "[(js ''other'', JString (js ''hugo'')),
             (js ''fix:b'', JString (js ''prettier'')),
             (js ''fix:a'', JNumber)]"
  let ?members = "[(js ''name'', JString (js ''site'')), (js ''scripts'', JObject ?scripts)]"
  let ?w = "\<lparr>package_json = Parsed (JObject ?members), stdout = [], stderr = []\<rparr>"
  have 1: "package_json ?w = Parsed (JObject ?members)" by simp
  have 2: "map_of ?members (js ''scripts'') = Some (JObject ?scripts)"
    by (simp add: js_def)
  have 3: "distinct (map fst ?scripts)" by (simp add: js_def)
  have 4: "fst ` set ?scripts = {js ''fix:a'', js ''fix:b'', js ''other''}" by auto
  note listed = fix_commands_listed [OF 1 2 3]
  have cmds: "fixCommands (map fst ?scripts) = [js ''fix:a'', js ''fix:b'']"
    using listed [THEN conjunct2, THEN conjunct2, THEN conjunct2, THEN conjunct2] 4
    by (rule mp)
  have a: "command_description (js ''fix:a'') = js ''Run fix command''"
    by (simp add: command_description_def COMMAND_DESCRIPTIONS_def js_def)
  have b: "command_description (js ''fix:b'') = js ''Run fix command''"
    by (simp add: command_description_def COMMAND_DESCRIPTIONS_def js_def)
  have la: "js ''- `/'' @ js ''fix:a'' @ js ''` - '' @ js ''Run fix command'' @ js ''\<newline>''
      = js ''- `/fix:a` - Run fix command\<newline>''"
    by (simp add: js_def)
  have lb: "js ''- `/'' @ js ''fix:b'' @ js ''` - '' @ js ''Run fix command'' @ js ''\<newline>''
      = js ''- `/fix:b` - Run fix command\<newline>''"
    by (simp add: js_def)
  have "fst (generateHelpText ?w) =
      Inr (before_commands
        @ (js ''- `/'' @ js ''fix:a'' @ js ''` - '' @ js ''Run fix command'' @ js ''\<newline>'')
        @ (js ''- `/'' @ js ''fix:b'' @ js ''` - '' @ js ''Run fix command'' @ js ''\<newline>'')
        @ after_commands)"
    unfolding listed [THEN conjunct1] cmds by (simp add: a b)
  then show ?thesis unfolding la lb .
qed

text \<open>
  C2. The line of a selected command holds the description the table maps the command
  to, when the table has the command, and the words \<^verbatim>\<open>Run fix command\<close> when
  it has not.
\<close>

theorem description_rendered:
  assumes "package_json w = Parsed (JObject members)"
    and "map_of members (js ''scripts'') = Some (JObject scripts)"
    and "cmd \<in> set (fixCommands (map fst scripts))"
  shows "fst (generateHelpText w) =
        Inr (before_commands @ concat (map command_line (fixCommands (map fst scripts)))
          @ after_commands)
    \<and> (\<forall>d. (cmd, d) \<in> set COMMAND_DESCRIPTIONS \<longrightarrow>
          command_line cmd = js ''- `/'' @ cmd @ js ''` - '' @ d @ js ''\<newline>'')
    \<and> (cmd \<notin> fst ` set COMMAND_DESCRIPTIONS \<longrightarrow>
          command_line cmd =
            js ''- `/'' @ cmd @ js ''` - '' @ js ''Run fix command'' @ js ''\<newline>'')"
proof (intro conjI allI impI)
  show "fst (generateHelpText w) =
      Inr (before_commands @ concat (map command_line (fixCommands (map fst scripts)))
        @ after_commands)"
    using assms(1,2) by (rule generateHelpText_document)
next
  fix d assume "(cmd, d) \<in> set COMMAND_DESCRIPTIONS"
  then show "command_line cmd = js ''- `/'' @ cmd @ js ''` - '' @ d @ js ''\<newline>''"
    by (rule command_line_present)
next
  assume "cmd \<notin> fst ` set COMMAND_DESCRIPTIONS"
  then show "command_line cmd =
      js ''- `/'' @ cmd @ js ''` - '' @ js ''Run fix command'' @ js ''\<newline>''"
    by (rule command_line_absent)
qed

theorem description_rendered_witness:
  "command_line (js ''fix:format'') =
     js ''- `/fix:format` - Format code and trim trailing spaces\<newline>''
   \<and> command_line (js ''fix:links'') = js ''- `/fix:links` - Run fix command\<newline>''"
proof -
  let ?scripts = "[(js ''fix:links'', JString (js ''check'')),
                   (js ''fix:format'', JString (js ''prettier''))]"
  let ?members = "[(js ''scripts'', JObject ?scripts)]"
  let ?w = "\<lparr>package_json = Parsed (JObject ?members), stdout = [], stderr = []\<rparr>"
  have 1: "package_json ?w = Parsed (JObject ?members)" by simp
  have 2: "map_of ?members (js ''scripts'') = Some (JObject ?scripts)" by simp
  have 3: "js ''fix:format'' \<in> set (fixCommands (map fst ?scripts))"
    by (simp add: set_fixCommands startsWith_def js_def)
  have 4: "js ''fix:links'' \<in> set (fixCommands (map fst ?scripts))"
    by (simp add: set_fixCommands startsWith_def js_def)
  have 5: "(js ''fix:format'', js ''Format code and trim trailing spaces'')
      \<in> set COMMAND_DESCRIPTIONS"
    by (simp add: COMMAND_DESCRIPTIONS_def)
  have 6: "js ''fix:links'' \<notin> fst ` set COMMAND_DESCRIPTIONS"
    by (simp add: COMMAND_DESCRIPTIONS_def js_def)
  have present: "command_line (js ''fix:format'') =
      js ''- `/'' @ js ''fix:format'' @ js ''` - ''
        @ js ''Format code and trim trailing spaces'' @ js ''\<newline>''"
    using description_rendered [OF 1 2 3, THEN conjunct2, THEN conjunct1, THEN spec] 5
    by (rule mp)
  have absent: "command_line (js ''fix:links'') =
      js ''- `/'' @ js ''fix:links'' @ js ''` - '' @ js ''Run fix command'' @ js ''\<newline>''"
    using description_rendered [OF 1 2 4, THEN conjunct2, THEN conjunct2] 6
    by (rule mp)
  have "js ''- `/'' @ js ''fix:format'' @ js ''` - ''
        @ js ''Format code and trim trailing spaces'' @ js ''\<newline>'' =
      js ''- `/fix:format` - Format code and trim trailing spaces\<newline>''"
    by (simp add: js_def)
  moreover have "js ''- `/'' @ js ''fix:links'' @ js ''` - '' @ js ''Run fix command''
        @ js ''\<newline>'' = js ''- `/fix:links` - Run fix command\<newline>''"
    by (simp add: js_def)
  ultimately show ?thesis unfolding present absent by (intro conjI)
qed

text \<open>
  C3, as the code has it, once the block of the entry point runs. When the manifest
  cannot be read, or its content cannot be parsed, or the parsed value has no scripts
  member to take keys of (it is not an object, or it is an object without a scripts
  member or with null for one), generateHelpText raises an error; for a manifest that
  cannot be read or parsed the error carries the message of that failure. Whatever
  error generateHelpText raises, the block writes to standard error a text that is not
  empty and holds the message of the error, and ends with a status that is not 0.
  When generateHelpText returns, the block writes the markdown to standard output and
  ends with status 0.
\<close>

theorem failure_reported:
  "(case package_json w of
      Unreadable m \<Rightarrow> fst (generateHelpText w) = Inl (Error m)
    | Unparsable m \<Rightarrow> fst (generateHelpText w) = Inl (SyntaxError m)
    | Parsed packageJson \<Rightarrow>
        scripts_missing packageJson \<longrightarrow>
          (\<exists>m. fst (generateHelpText w) = Inl (TypeError m)))
   \<and> (\<forall>e. fst (generateHelpText w) = Inl e \<longrightarrow>
        (\<exists>before after.
            stderr (fst (main w)) = stderr w @ before @ message e @ after
            \<and> before @ message e @ after \<noteq> [])
        \<and> snd (main w) \<noteq> 0)
   \<and> (\<forall>md. fst (generateHelpText w) = Inr md \<longrightarrow>
        stdout (fst (main w)) = stdout w @ md @ js ''\<newline>'' \<and> snd (main w) = 0)"
proof (intro conjI allI impI)
  show "case package_json w of
      Unreadable m \<Rightarrow> fst (generateHelpText w) = Inl (Error m)
    | Unparsable m \<Rightarrow> fst (generateHelpText w) = Inl (SyntaxError m)
    | Parsed packageJson \<Rightarrow>
        scripts_missing packageJson \<longrightarrow>
          (\<exists>m. fst (generateHelpText w) = Inl (TypeError m))"
  proof (cases "package_json w")
    case (Unreadable m)
    then show ?thesis by (simp add: generateHelpText_def JSON_parse_readFileSync_def)
  next
    case (Unparsable m)
    then show ?thesis by (simp add: generateHelpText_def JSON_parse_readFileSync_def)
  next
    case (Parsed packageJson)
    have "\<exists>m. fst (generateHelpText w) = Inl (TypeError m)"
      if "scripts_missing packageJson"
    proof -
      from Parsed that obtain m where "generateHelpText w = (Inl (TypeError m), w)"
        using generateHelpText_scripts_missing by blast
      then show ?thesis by simp
    qed
    with Parsed show ?thesis by simp
  qed
next
  fix e assume "fst (generateHelpText w) = Inl e"
  then have "generateHelpText w = (Inl e, w)"
    using generateHelpText_pair [of w] by simp
  then have m: "main w =
      (w\<lparr>stderr := stderr w @ js ''Error generating help text: '' @ message e
          @ js ''\<newline>''\<rparr>, 1)"
    by (rule main_failure)
  have "stderr (fst (main w)) =
      stderr w @ js ''Error generating help text: '' @ message e @ js ''\<newline>''
    \<and> js ''Error generating help text: '' @ message e @ js ''\<newline>'' \<noteq> []"
    by (simp add: m)
  then show "\<exists>before after.
      stderr (fst (main w)) = stderr w @ before @ message e @ after
      \<and> before @ message e @ after \<noteq> []"
    by blast
  show "snd (main w) \<noteq> 0" by (simp add: m)
next
  fix md assume "fst (generateHelpText w) = Inr md"
  then have "generateHelpText w = (Inr md, w)"
    using generateHelpText_pair [of w] by simp
  then have m: "main w = (w\<lparr>stdout := stdout w @ md @ js ''\<newline>''\<rparr>, 0)"
    by (rule main_success)
  show "stdout (fst (main w)) = stdout w @ md @ js ''\<newline>''" by (simp add: m)
  show "snd (main w) = 0" by (simp add: m)
qed

theorem failure_reported_witness:
  "(\<exists>before after.
      stderr (fst (main \<lparr>package_json = Unreadable (js ''ENOENT: no such file or directory''),
          stdout = [], stderr = []\<rparr>)) =
        before @ js ''ENOENT: no such file or directory'' @ after)
   \<and> snd (main \<lparr>package_json = Unreadable (js ''ENOENT: no such file or directory''),
          stdout = [], stderr = []\<rparr>) \<noteq> 0
   \<and> snd (main \<lparr>package_json = Parsed (JObject [(js ''name'', JString (js ''site''))]),
          stdout = [], stderr = []\<rparr>) \<noteq> 0
   \<and> stdout (fst (main \<lparr>package_json = Parsed (JObject [(js ''scripts'', JObject [])]),
          stdout = [], stderr = []\<rparr>)) = before_commands @ after_commands @ js ''\<newline>''
   \<and> snd (main \<lparr>package_json = Parsed (JObject [(js ''scripts'', JObject [])]),
          stdout = [], stderr = []\<rparr>) = 0"
proof -
  let ?u = "\<lparr>package_json = Unreadable (js ''ENOENT: no such file or directory''),
          stdout = [], stderr = []\<rparr>"
  let ?n = "\<lparr>package_json = Parsed (JObject [(js ''name'', JString (js ''site''))]),
          stdout = [], stderr = []\<rparr>"
  let ?s = "\<lparr>package_json = Parsed (JObject [(js ''scripts'', JObject [])]),
          stdout = [], stderr = []\<rparr>"
  note u = failure_reported [of ?u]
  note n = failure_reported [of ?n]
  note s = failure_reported [of ?s]
  have raised_u: "fst (generateHelpText ?u) =
      Inl (Error (js ''ENOENT: no such file or directory''))"
    using u [THEN conjunct1] by simp
  have reported_u: "(\<exists>before after.
        stderr (fst (main ?u)) =
          stderr ?u @ before
            @ message (Error (js ''ENOENT: no such file or directory'')) @ after
        \<and> before @ message (Error (js ''ENOENT: no such file or directory'')) @ after \<noteq> [])
      \<and> snd (main ?u) \<noteq> 0"
    using u [THEN conjunct2, THEN conjunct1, THEN spec] raised_u by (rule mp)
  have 1: "\<exists>before after.
      stderr (fst (main ?u)) = before @ js ''ENOENT: no such file or directory'' @ after"
    using reported_u by auto
  have 2: "snd (main ?u) \<noteq> 0" using reported_u by (rule conjunct2)
  have "scripts_missing (JObject [(js ''name'', JString (js ''site''))])"
    by (simp add: js_def)
  then obtain m where raised_n: "fst (generateHelpText ?n) = Inl (TypeError m)"
    using n [THEN conjunct1] by auto
  have 3: "snd (main ?n) \<noteq> 0"
    using n [THEN conjunct2, THEN conjunct1, THEN spec, THEN mp, OF raised_n]
    by (rule conjunct2)
  have returned: "fst (generateHelpText ?s) = Inr (before_commands @ after_commands)"
    using generateHelpText_scripts_mapping [of ?s "[(js ''scripts'', JObject [])]" "[]"]
    by (simp add: markdown_layout fixCommands_def)
  have 4: "stdout (fst (main ?s)) = stdout ?s @ (before_commands @ after_commands) @ js ''\<newline>''
      \<and> snd (main ?s) = 0"
    using s [THEN conjunct2, THEN conjunct2, THEN spec] returned by (rule mp)
  from 1 2 3 4 show ?thesis by simp
qed

text \<open>
  C3, as stated, fails: a manifest whose scripts member is the string
  \<^verbatim>\<open>"fix:all"\<close> has no scripts mapping, yet nothing is raised; the document comes
  out with an empty list of commands, nothing is written to standard error, and the
  block ends with status 0.
\<close>

theorem scripts_string_exits_zero:
  "\<not> has_scripts_mapping (JObject [(js ''scripts'', JString (js ''fix:all''))])
   \<and> main \<lparr>package_json = Parsed (JObject [(js ''scripts'', JString (js ''fix:all''))]),
           stdout = [], stderr = []\<rparr> =
     (\<lparr>package_json = Parsed (JObject [(js ''scripts'', JString (js ''fix:all''))]),
       stdout = before_commands @ after_commands @ js ''\<newline>'', stderr = []\<rparr>, 0)"
proof -
  let ?w = "\<lparr>package_json = Parsed (JObject [(js ''scripts'', JString (js ''fix:all''))]),
           stdout = [], stderr = []\<rparr>"
  have "Object_keys (Some (JString (js ''fix:all''))) =
      Inr (map index_key [0..<length (js ''fix:all'')])"
    by (simp only: Object_keys.simps)
  then have "generateHelpText ?w =
      (Inr (markdown (fixCommands (map index_key [0..<length (js ''fix:all'')]))), ?w)"
    by (simp add: generateHelpText_def JSON_parse_readFileSync_def)
  then have "generateHelpText ?w = (Inr (markdown []), ?w)"
    by (simp only: fixCommands_index_keys)
  then have "main ?w = (?w\<lparr>stdout := stdout ?w @ markdown [] @ js ''\<newline>''\<rparr>, 0)"
    by (rule main_success)
  then show ?thesis by (simp add: markdown_layout)
qed

text \<open>
  C4. The document holds the lines of the usage examples, one record after the other in
  the order of USAGE_EXAMPLES, and further on the lines of the troubleshooting tips in
  the order of TROUBLESHOOTING, every record laid out in the fixed lines with its fields
  in place; no record stands twice in either list.
\<close>

theorem examples_and_tips_in_order:
  assumes "fst (generateHelpText w) = Inr md"
  shows "(\<exists>cmds. md =
      (before_commands @ concat (map command_line cmds)
        @ js ''\<newline>'' @ usage_heading @ js ''\<newline>'')
      @ concat (map (\<lambda>example.
            js ''**`'' @ command example @ js ''`**\<newline>''
            @ js ''- '' @ description example @ js ''\<newline>''
            @ js ''- _'' @ when' example @ js ''_\<newline>\<newline>'') USAGE_EXAMPLES)
      @ (how_heading @ how_steps @ troubleshooting_heading @ js ''\<newline>'')
      @ concat (map (\<lambda>tip.
            js ''**'' @ issue tip @ js ''**\<newline>''
            @ solution tip @ js ''\<newline>\<newline>'') TROUBLESHOOTING)
      @ (documentation_heading @ documentation_links @ footer_line))
    \<and> distinct (map command USAGE_EXAMPLES)
    \<and> distinct (map issue TROUBLESHOOTING)"
proof -
  from assms obtain keys where "md = markdown (fixCommands keys)"
    using generateHelpText_markdown by blast
  then have "md =
      (before_commands @ concat (map command_line (fixCommands keys))
        @ js ''\<newline>'' @ usage_heading @ js ''\<newline>'')
      @ concat (map (\<lambda>example.
            js ''**`'' @ command example @ js ''`**\<newline>''
            @ js ''- '' @ description example @ js ''\<newline>''
            @ js ''- _'' @ when' example @ js ''_\<newline>\<newline>'') USAGE_EXAMPLES)
      @ (how_heading @ how_steps @ troubleshooting_heading @ js ''\<newline>'')
      @ concat (map (\<lambda>tip.
            js ''**'' @ issue tip @ js ''**\<newline>''
            @ solution tip @ js ''\<newline>\<newline>'') TROUBLESHOOTING)
      @ (documentation_heading @ documentation_links @ footer_line)"
    unfolding markdown_layout after_commands_def example_lines_def [abs_def]
      tip_lines_def [abs_def]
    by (simp only: append_assoc)
  then show ?thesis
    using USAGE_EXAMPLES_distinct TROUBLESHOOTING_distinct by blast
qed

theorem examples_and_tips_in_order_witness:
  "(\<exists>cmds. before_commands @ after_commands =
      (before_commands @ concat (map command_line cmds)
        @ js ''\<newline>'' @ usage_heading @ js ''\<newline>'')
      @ concat (map (\<lambda>example.
            js ''**`'' @ command example @ js ''`**\<newline>''
            @ js ''- '' @ description example @ js ''\<newline>''
            @ js ''- _'' @ when' example @ js ''_\<newline>\<newline>'') USAGE_EXAMPLES)
      @ (how_heading @ how_steps @ troubleshooting_heading @ js ''\<newline>'')
      @ concat (map (\<lambda>tip.
            js ''**'' @ issue tip @ js ''**\<newline>''
            @ solution tip @ js ''\<newline>\<newline>'') TROUBLESHOOTING)
      @ (documentation_heading @ documentation_links @ footer_line))"
proof -
  let ?w = "\<lparr>package_json = Parsed (JObject [(js ''scripts'', JObject [])]),
            stdout = [], stderr = []\<rparr>"
  have "fst (generateHelpText ?w) = Inr (before_commands @ after_commands)"
    using generateHelpText_scripts_mapping [of ?w "[(js ''scripts'', JObject [])]" "[]"]
    by (simp add: markdown_layout fixCommands_def)
  then show ?thesis
    by (rule examples_and_tips_in_order [THEN conjunct1])
qed



text \<open>
  C6. The values of the scripts mapping do not reach the output: two manifests whose
  scripts mappings have the same keys, whatever the values, the order of the keys and
  the other members of the manifest, yield the same string.
\<close>

theorem values_irrelevant:
  assumes "package_json w1 = Parsed (JObject members1)"
    and "map_of members1 (js ''scripts'') = Some (JObject scripts1)"
    and "package_json w2 = Parsed (JObject members2)"
    and "map_of members2 (js ''scripts'') = Some (JObject scripts2)"
    and "distinct (map fst scripts1)" and "distinct (map fst scripts2)"
    and "fst ` set scripts1 = fst ` set scripts2"
  shows "fst (generateHelpText w1) = fst (generateHelpText w2)"
proof -
  from assms(7) have "set (map fst scripts1) = set (map fst scripts2)" by simp
  with assms(5,6) have "fixCommands (map fst scripts1) = fixCommands (map fst scripts2)"
    by (rule fixCommands_same_keys)
  then show ?thesis
    using generateHelpText_scripts_mapping [OF assms(1,2)]
      generateHelpText_scripts_mapping [OF assms(3,4)]
    by simp
qed

theorem values_irrelevant_witness:
  "fst (generateHelpText
      \<lparr>package_json = Parsed (JObject
          [(js ''scripts'', JObject
              [(js ''fix:text'', JString (js ''textlint --fix'')),
               (js ''build'', JString (js ''hugo''))])]),
       stdout = [], stderr = []\<rparr>) =
   fst (generateHelpText
      \<lparr>package_json = Parsed (JObject
          [(js ''name'', JString (js ''site'')),
           (js ''scripts'', JObject
              [(js ''build'', JNumber),
               (js ''fix:text'', JArray [JBool True])])]),
       stdout = [], stderr = []\<rparr>)"
proof -
  let ?scripts1 = "[(js ''fix:text'', JString (js ''textlint --fix'')),
               (js ''build'', JString (js ''hugo''))]"
  let ?members1 = "[(js ''scripts'', JObject ?scripts1)]"
  let ?scripts2 = "[(js ''build'', JNumber), (js ''fix:text'', JArray [JBool True])]"
  let ?members2 = "[(js ''name'', JString (js ''site'')), (js ''scripts'', JObject ?scripts2)]"
  let ?w1 = "\<lparr>package_json = Parsed (JObject ?members1), stdout = [], stderr = []\<rparr>"
  let ?w2 = "\<lparr>package_json = Parsed (JObject ?members2), stdout = [], stderr = []\<rparr>"
  have 1: "package_json ?w1 = Parsed (JObject ?members1)" by simp
  have 2: "map_of ?members1 (js ''scripts'') = Some (JObject ?scripts1)" by simp
  have 3: "package_json ?w2 = Parsed (JObject ?members2)" by simp
  have 4: "map_of ?members2 (js ''scripts'') = Some (JObject ?scripts2)"
    by (simp add: js_def)
  have 5: "distinct (map fst ?scripts1)" by (simp add: js_def)
  have 6: "distinct (map fst ?scripts2)" by (simp add: js_def)
  have 7: "fst ` set ?scripts1 = fst ` set ?scripts2" by auto
  show ?thesis by (rule values_irrelevant [OF 1 2 3 4 5 6 7])
qed

text \<open>
  C7. generateHelpText leaves the world as it found it, the console streams included,
  and what it returns is a function of the manifest alone; the entry point adds to the
  two streams and changes nothing else.
\<close>

theorem generateHelpText_pure:
  "(\<exists>f. \<forall>w. generateHelpText w = (f (package_json w), w))
   \<and> (\<forall>w. \<exists>out err.
        fst (main w) = w\<lparr>stdout := stdout w @ out, stderr := stderr w @ err\<rparr>)"
proof (intro conjI allI)
  have "generateHelpText w =
      (fst (generateHelpText \<lparr>package_json = package_json w, stdout = [], stderr = []\<rparr>), w)"
    for w
    by (simp add: generateHelpText_def JSON_parse_readFileSync_def
        split: manifest.splits sum.splits)
  then show "\<exists>f. \<forall>w. generateHelpText w = (f (package_json w), w)"
    by (intro exI [of _ "\<lambda>m. fst (generateHelpText
        \<lparr>package_json = m, stdout = [], stderr = []\<rparr>)"] allI)
next
  fix w
  show "\<exists>out err. fst (main w) = w\<lparr>stdout := stdout w @ out, stderr := stderr w @ err\<rparr>"
  proof (cases "fst (generateHelpText w)")
    case (Inl e)
    then have "generateHelpText w = (Inl e, w)"
      using generateHelpText_world [of w] by (simp add: prod_eq_iff)
    then have "fst (main w) = w\<lparr>stdout := stdout w @ [],
        stderr := stderr w @ js ''Error generating help text: '' @ message e
          @ js ''\<newline>''\<rparr>"
      by (simp add: main_failure)
    then show ?thesis by blast
  next
    case (Inr md)
    then have "generateHelpText w = (Inr md, w)"
      using generateHelpText_world [of w] by (simp add: prod_eq_iff)
    then have "fst (main w) = w\<lparr>stdout := stdout w @ md @ js ''\<newline>'',
        stderr := stderr w @ []\<rparr>"
      by (simp add: main_success)
    then show ?thesis by blast
  qed
qed

text \<open>
  C8. A scripts key that is exactly \<^verbatim>\<open>fix\<close> is not among the commands listed,
  though the description table has an entry for it: every command listed starts with
  \<^verbatim>\<open>fix:\<close>.
\<close>

theorem bare_fix_not_listed:
  assumes "package_json w = Parsed (JObject members)"
    and "map_of members (js ''scripts'') = Some (JObject scripts)"
  shows "fst (generateHelpText w) =
        Inr (before_commands @ concat (map command_line (fixCommands (map fst scripts)))
          @ after_commands)
    \<and> js ''fix'' \<notin> set (fixCommands (map fst scripts))
    \<and> (\<forall>cmd \<in> set (fixCommands (map fst scripts)). startsWith cmd (js ''fix:''))
    \<and> map_of COMMAND_DESCRIPTIONS (js ''fix'') = Some (js ''Run all fix commands'')"
proof (intro conjI ballI)
  show "fst (generateHelpText w) =
      Inr (before_commands @ concat (map command_line (fixCommands (map fst scripts)))
        @ after_commands)"
    using assms by (rule generateHelpText_document)
  show "js ''fix'' \<notin> set (fixCommands (map fst scripts))"
    by (simp add: set_fixCommands bare_fix_no_prefix)
  show "map_of COMMAND_DESCRIPTIONS (js ''fix'') = Some (js ''Run all fix commands'')"
    by (rule bare_fix_in_table)
next
  fix cmd assume "cmd \<in> set (fixCommands (map fst scripts))"
  then show "startsWith cmd (js ''fix:'')" by (simp add: set_fixCommands)
qed

theorem bare_fix_not_listed_witness:
  "fst (generateHelpText
      \<lparr>package_json = Parsed (JObject
          [(js ''scripts'', JObject
              [(js ''fix'', JString (js ''npm run fix:all'')),
               (js ''fix:all'', JString (js ''npm run fix:format''))])]),
       stdout = [], stderr = []\<rparr>) =
   Inr (before_commands @ command_line (js ''fix:all'') @ after_commands)"
proof -
  let ?scripts = "[(js ''fix'', JString (js ''npm run fix:all'')),
               (js ''fix:all'', JString (js ''npm run fix:format''))]"
  let ?members = "[(js ''scripts'', JObject ?scripts)]"
  let ?w = "\<lparr>package_json = Parsed (JObject ?members), stdout = [], stderr = []\<rparr>"
  have 1: "package_json ?w = Parsed (JObject ?members)" by simp
  have 2: "map_of ?members (js ''scripts'') = Some (JObject ?scripts)" by simp
  have "startsWith (js ''fix:all'') (js ''fix:'')" by (simp add: startsWith_def js_def)
  then have cmds: "fixCommands (map fst ?scripts) = [js ''fix:all'']"
    by (simp add: fixCommands_def bare_fix_no_prefix)
  show ?thesis
    unfolding bare_fix_not_listed [OF 1 2, THEN conjunct1] cmds by simp
qed

text \<open>
  C9. When the scripts member of the manifest is a mapping, generateHelpText returns the
  document: all the fixed text, and one line for each fix command. When no key starts
  with \<^verbatim>\<open>fix:\<close> the list of commands is empty, and the document is the fixed text
  alone, title first and footer last.
\<close>

theorem scripts_mapping_succeeds:
  assumes "package_json w = Parsed (JObject members)"
    and "map_of members (js ''scripts'') = Some (JObject scripts)"
  shows "generateHelpText w =
        (Inr (before_commands @ concat (map command_line (fixCommands (map fst scripts)))
          @ after_commands), w)
    \<and> ((\<forall>script \<in> fst ` set scripts. \<not> startsWith script (js ''fix:'')) \<longrightarrow>
          fixCommands (map fst scripts) = []
          \<and> generateHelpText w = (Inr (before_commands @ after_commands), w))"
proof -
  have doc: "generateHelpText w =
        (Inr (before_commands @ concat (map command_line (fixCommands (map fst scripts)))
          @ after_commands), w)"
    using generateHelpText_scripts_mapping [OF assms] by (simp add: markdown_layout)
  have "fixCommands (map fst scripts) = []"
    if "\<forall>script \<in> fst ` set scripts. \<not> startsWith script (js ''fix:'')"
  proof -
    from that have "filter (\<lambda>script. startsWith script (js ''fix:'')) (map fst scripts) = []"
      by (simp add: filter_empty_conv)
    then show ?thesis by (simp add: fixCommands_def)
  qed
  with doc show ?thesis by simp
qed

theorem scripts_mapping_succeeds_witness:
  "generateHelpText
      \<lparr>package_json = Parsed (JObject
          [(js ''scripts'', JObject [(js ''build'', JString (js ''hugo''))])]),
       stdout = [], stderr = []\<rparr> =
    (Inr (before_commands @ after_commands),
      \<lparr>package_json = Parsed (JObject
          [(js ''scripts'', JObject [(js ''build'', JString (js ''hugo''))])]),
       stdout = [], stderr = []\<rparr>)"
proof -
  let ?scripts = "[(js ''build'', JString (js ''hugo''))]"
  let ?members = "[(js ''scripts'', JObject ?scripts)]"
  let ?w = "\<lparr>package_json = Parsed (JObject ?members), stdout = [], stderr = []\<rparr>"
  have 1: "package_json ?w = Parsed (JObject ?members)" by simp
  have 2: "map_of ?members (js ''scripts'') = Some (JObject ?scripts)" by simp
  have 3: "\<forall>script \<in> fst ` set ?scripts. \<not> startsWith script (js ''fix:'')"
    by (simp add: startsWith_def js_def)
  from scripts_mapping_succeeds [OF 1 2, THEN conjunct2] 3
  have "fixCommands (map fst ?scripts) = []
      \<and> generateHelpText ?w = (Inr (before_commands @ after_commands), ?w)"
    by (rule mp)
  then show ?thesis by (rule conjunct2)
qed

text \<open>
  C10. Every document returned begins with the title line and ends with the footer line
  and its newline, and between them the heading lines of the sections stand in the
  order Available Commands, Usage Examples, How It Works, Troubleshooting,
  Documentation.
\<close>

theorem document_frame:
  assumes "fst (generateHelpText w) = Inr md"
  shows "prefix (js ''## '' @ [0xD83E, 0xDD16] @ js '' PR Actions Bot - Help\<newline>'') md
    \<and> suffix (js ''_'' @ [0xD83D, 0xDCAC]
          @ js '' Need more help? Ask in the PR comments or reach out to maintainers._\<newline>'') md
    \<and> (\<exists>a b c d e f. md =
          title_line @ a
          @ (js ''### '' @ [0xD83D, 0xDCCB] @ js '' Available Commands\<newline>'') @ b
          @ (js ''### '' @ [0xD83D, 0xDCA1] @ js '' Usage Examples\<newline>'') @ c
          @ (js ''### '' @ [0x2699, 0xFE0F] @ js '' How It Works\<newline>'') @ d
          @ (js ''### '' @ [0xD83D, 0xDD27] @ js '' Troubleshooting\<newline>'') @ e
          @ (js ''### '' @ [0xD83D, 0xDCDA] @ js '' Documentation\<newline>'') @ f
          @ footer_line)"
proof -
  from assms obtain keys where "md = markdown (fixCommands keys)"
    using generateHelpText_markdown by blast
  then have md: "md = before_commands @ concat (map command_line (fixCommands keys))
      @ after_commands"
    by (simp add: markdown_layout)
  have "prefix title_line md" unfolding md by (rule title_first)
  moreover have "suffix footer_line md"
    unfolding md by (intro suffix_appendI footer_last)
  moreover have "md =
      title_line @ intro_text
      @ commands_heading
      @ (commands_hint @ concat (map command_line (fixCommands keys)) @ js ''\<newline>'')
      @ usage_heading @ (js ''\<newline>'' @ concat (map example_lines USAGE_EXAMPLES))
      @ how_heading @ how_steps
      @ troubleshooting_heading @ (js ''\<newline>'' @ concat (map tip_lines TROUBLESHOOTING))
      @ documentation_heading @ documentation_links
      @ footer_line"
    unfolding md before_commands_def after_commands_def by (simp only: append_assoc)
  then have "\<exists>a b c d e f. md =
      title_line @ a @ commands_heading @ b @ usage_heading @ c @ how_heading @ d
      @ troubleshooting_heading @ e @ documentation_heading @ f @ footer_line"
    by blast
  ultimately show ?thesis
    unfolding title_line_def footer_line_def commands_heading_def usage_heading_def
      how_heading_def troubleshooting_heading_def documentation_heading_def
    by (intro conjI)
qed

theorem document_frame_witness:
  "prefix (js ''## '' @ [0xD83E, 0xDD16] @ js '' PR Actions Bot - Help\<newline>'')
      (before_commands @ command_line (js ''fix:all'') @ after_commands)
   \<and> suffix (js ''_'' @ [0xD83D, 0xDCAC]
          @ js '' Need more help? Ask in the PR comments or reach out to maintainers._\<newline>'')
      (before_commands @ command_line (js ''fix:all'') @ after_commands)"
proof -
  let ?scripts = "[(js ''fix:all'', JString (js ''npm run fix:format''))]"
  let ?members = "[(js ''scripts'', JObject ?scripts)]"
  let ?w = "\<lparr>package_json = Parsed (JObject ?members), stdout = [], stderr = []\<rparr>"
  have "startsWith (js ''fix:all'') (js ''fix:'')" by (simp add: startsWith_def js_def)
  then have "fixCommands (map fst ?scripts) = [js ''fix:all'']"
    by (simp add: fixCommands_def)
  then have "fst (generateHelpText ?w) =
      Inr (before_commands @ command_line (js ''fix:all'') @ after_commands)"
    using generateHelpText_document [of ?w ?members ?scripts] by simp
  then show ?thesis
    using document_frame [of ?w "before_commands @ command_line (js ''fix:all'') @ after_commands"]
    by blast
qed

end
